theory Spec2Isabelle
  imports Complex_Main
begin

section \<open>Numeric conventions\<close>

text \<open>
  The renderer computes in C++ \<^verbatim>\<open>float\<close>. Throughout this development a
  \<^verbatim>\<open>float\<close> is idealised as a mathematical \<^typ>\<open>real\<close>: rounding, infinities
  and NaN are not modelled, and a decimal literal such as \<^verbatim>\<open>0.001f\<close> stands for
  the real number it denotes. C++ \<^verbatim>\<open>int\<close> values are \<^typ>\<open>int\<close>, with the 32-bit
  range written out where a conversion or an increment could leave it.

  Rounding matters where a result turns on a comparison or on a conversion of a computed
  float to \<^verbatim>\<open>int\<close>: the order of the zoom bounds, the degenerate-length guard, the
  dash count. The statements on these are restricted to the inputs on which the
  binary32 computation and the real one decide alike, and each says where its
  restriction comes from.
\<close>

section \<open>Vectors\<close>

text \<open>\<^verbatim>\<open>glm::vec3\<close>: the three-component vector of the graphics side.\<close>

datatype vec3 = vec3 (glm_x: real) (glm_y: real) (glm_z: real)

section \<open>Camera state\<close>

text \<open>
  The members of \<^verbatim>\<open>ViewController\<close> that the camera and the projection read or
  write. The window handle, the shader program and the vertex buffers belong to the
  graphics layer and carry no geometry.
\<close>

record ViewController =
  cameraPos :: vec3
  cameraTarget :: vec3
  cameraUp :: vec3
  orthographicLeft :: real
  orthographicRight :: real
  orthographicBottom :: real
  orthographicTop :: real

text \<open>\<^verbatim>\<open>ViewController::processScroll\<close>: scale the four bounds, then clamp each on one side.\<close>

definition processScroll :: "ViewController \<Rightarrow> real \<Rightarrow> ViewController" where
  "processScroll vc yOffset =
     (let zoomSensitivity = 10;
          zoomFactor = 1 + (- yOffset * zoomSensitivity / 100);
          vc1 = vc\<lparr>orthographicLeft := orthographicLeft vc * zoomFactor\<rparr>;
          vc2 = vc1\<lparr>orthographicRight := orthographicRight vc1 * zoomFactor\<rparr>;
          vc3 = vc2\<lparr>orthographicBottom := orthographicBottom vc2 * zoomFactor\<rparr>;
          vc4 = vc3\<lparr>orthographicTop := orthographicTop vc3 * zoomFactor\<rparr>;
          vc5 = vc4\<lparr>orthographicLeft := max (orthographicLeft vc4) (- 3200)\<rparr>;
          vc6 = vc5\<lparr>orthographicRight := min (orthographicRight vc5) 3200\<rparr>;
          vc7 = vc6\<lparr>orthographicBottom := max (orthographicBottom vc6) (- 1800)\<rparr>
      in vc7\<lparr>orthographicTop := min (orthographicTop vc7) 1800\<rparr>)"

text \<open>\<^verbatim>\<open>ViewController::getCurrentZoomLevel\<close>.\<close>

definition getCurrentZoomLevel :: "ViewController \<Rightarrow> real" where
  "getCurrentZoomLevel vc = (orthographicRight vc - orthographicLeft vc) / 200"

text \<open>A run of scroll events, each handled by \<open>processScroll\<close> in turn.\<close>

definition processScrolls :: "ViewController \<Rightarrow> real list \<Rightarrow> ViewController" where
  "processScrolls vc yOffsets = foldl processScroll vc yOffsets"






definition boundsPinned :: "ViewController \<Rightarrow> bool" where
  "boundsPinned vc \<longleftrightarrow>
     orthographicLeft vc = - 3200 \<and> orthographicRight vc = 3200 \<and>
     orthographicBottom vc = - 1800 \<and> orthographicTop vc = 1800"

text \<open>A camera as the constructor leaves it, with the given bounds.\<close>

definition cameraWith :: "real \<Rightarrow> real \<Rightarrow> real \<Rightarrow> real \<Rightarrow> ViewController" where
  "cameraWith l r b t =
     \<lparr>cameraPos = vec3 0 100 0, cameraTarget = vec3 0 0 0, cameraUp = vec3 0 0 (- 1),
      orthographicLeft = l, orthographicRight = r,
      orthographicBottom = b, orthographicTop = t\<rparr>"

section \<open>Simulation-side data\<close>

text \<open>
  Modelled from the spec: class \<^verbatim>\<open>Vector3\<close> of the simulation model, declared in a
  header that is not among the sources. The renderer reads its components
  \<^verbatim>\<open>x\<close>, \<^verbatim>\<open>y\<close>, \<^verbatim>\<open>z\<close> and uses its sum, difference, scaling by a float,
  \<^verbatim>\<open>length()\<close> and \<^verbatim>\<open>normalized()\<close>.
\<close>

datatype Vector3 = Vector3 (vec_x: real) (vec_y: real) (vec_z: real)

text \<open>Modelled from the spec: \<^verbatim>\<open>Vector3::operator+\<close>, component-wise.\<close>

definition vec_add :: "Vector3 \<Rightarrow> Vector3 \<Rightarrow> Vector3" where
  "vec_add a b = Vector3 (vec_x a + vec_x b) (vec_y a + vec_y b) (vec_z a + vec_z b)"

text \<open>Modelled from the spec: \<^verbatim>\<open>Vector3::operator-\<close>, component-wise.\<close>

definition vec_sub :: "Vector3 \<Rightarrow> Vector3 \<Rightarrow> Vector3" where
  "vec_sub a b = Vector3 (vec_x a - vec_x b) (vec_y a - vec_y b) (vec_z a - vec_z b)"

text \<open>Modelled from the spec: \<^verbatim>\<open>Vector3::operator*(float)\<close>, scaling.\<close>

definition vec_scale :: "Vector3 \<Rightarrow> real \<Rightarrow> Vector3" where
  "vec_scale a k = Vector3 (vec_x a * k) (vec_y a * k) (vec_z a * k)"

text \<open>Modelled from the spec: \<^verbatim>\<open>Vector3::length()\<close>, the Euclidean length.\<close>

definition vec_length :: "Vector3 \<Rightarrow> real" where
  "vec_length a = sqrt (vec_x a * vec_x a + vec_y a * vec_y a + vec_z a * vec_z a)"

text \<open>
  Modelled from the spec: \<^verbatim>\<open>Vector3::normalized()\<close>. The spec calls the direction
  "the zero-safe normalized vector" and has a road between coincident junctions
  skipped, so the zero vector is returned as it is; any other vector is divided by
  its length.
\<close>

definition normalized :: "Vector3 \<Rightarrow> Vector3" where
  "normalized a =
     (let len = vec_length a
      in if len = 0 then a else Vector3 (vec_x a / len) (vec_y a / len) (vec_z a / len))"

text \<open>
  Modelled from the spec: \<^verbatim>\<open>Color\<close>, three channels in 0..255, read as
  \<^verbatim>\<open>r\<close>, \<^verbatim>\<open>g\<close>, \<^verbatim>\<open>b\<close>.
\<close>

datatype Color = Color (col_r: int) (col_g: int) (col_b: int)

text \<open>
  Modelled from the spec: the light state of one approach of a traffic-light junction.
  The \<^verbatim>\<open>switch\<close> of \<^verbatim>\<open>renderTrafficLights\<close> names exactly these three.
\<close>

datatype LightState = GREEN | YELLOW | RED

text \<open>
  A road as a junction refers to it (a shared pointer in the source): only its
  identity matters to the junction's queries.
\<close>

type_synonym RoadRef = nat

text \<open>
  Modelled from the spec: the query surface of \<^verbatim>\<open>TrafficLightJunction\<close>: the
  connected roads, and per road the entry point and the light state.
\<close>

record TrafficLightJunction =
  getConnectedRoads :: "RoadRef list"
  getEntryPoint :: "RoadRef \<Rightarrow> Vector3"
  getLightState :: "RoadRef \<Rightarrow> LightState"

text \<open>
  Modelled from the spec: the query surface of \<^verbatim>\<open>Junction\<close>. The field
  \<open>asTrafficLightJunction\<close> is the result of the source's
  \<^verbatim>\<open>dynamic_cast<const TrafficLightJunction*>\<close>: \<open>None\<close> for a plain junction.
\<close>

record Junction =
  getPosition :: Vector3
  getRadius :: real
  asTrafficLightJunction :: "TrafficLightJunction option"

text \<open>
  Modelled from the spec: a lane carries a type tag. The renderer only compares two
  tags for inequality; the tag is kept as the enumerator's integer value.
\<close>

type_synonym LaneType = int

record Lane =
  getType :: LaneType

text \<open>Modelled from the spec: the query surface of \<^verbatim>\<open>Vehicle\<close>.\<close>

record Vehicle =
  getCurrentLane :: int
  getDistanceAlongRoad :: real
  getDimensions :: Vector3
  getColor :: Color

text \<open>
  Modelled from the spec: the query surface of \<^verbatim>\<open>RoadSegment\<close>. Junction and
  vehicle references are pointers that may be null (\<open>None\<close>). \<open>getLanes\<close> and
  \<open>getLaneCount\<close> are two separate accessors in the source and stay separate here.
\<close>

record RoadSegment =
  getStartJunction :: "Junction option"
  getEndJunction :: "Junction option"
  getDimensions :: Vector3
  getLanes :: "Lane list"
  getLaneCount :: int
  getVehicles :: "Vehicle option list"
  getLanePositionAlongRoad :: "int \<Rightarrow> real \<Rightarrow> Vector3"
  getDirection :: Vector3

section \<open>Draw commands\<close>

text \<open>
  Every \<^verbatim>\<open>glDrawArrays\<close> call draws the shared unit quad with the model matrix and
  the colour uploaded just before it. The model matrix is kept as the sequence of
  \<^verbatim>\<open>glm::translate\<close>, \<^verbatim>\<open>glm::rotate\<close> and \<^verbatim>\<open>glm::scale\<close> calls applied to the
  identity, in call order. Each call multiplies on the right, so a leading
  \<open>Translate t\<close> is the world translation of the command.
\<close>

datatype Transform = Translate vec3 | Rotate real vec3 | Scale vec3

record DrawCommand =
  model :: "Transform list"
  objectColor :: vec3

text \<open>The world translation of a command: the leading translation of its model matrix.\<close>

definition translation :: "DrawCommand \<Rightarrow> vec3 option" where
  "translation cmd = (case model cmd of Translate t # _ \<Rightarrow> Some t | _ \<Rightarrow> None)"

text \<open>Undefined behaviour the source can reach, as values.\<close>

datatype fault = IndexOutOfBounds | FloatToIntOutOfRange | SignedOverflow

text \<open>
  \<^verbatim>\<open>static_cast<int>(float)\<close>: truncation toward zero, undefined when the truncated
  value does not fit a 32-bit \<^verbatim>\<open>int\<close>.
\<close>

definition static_cast_int :: "real \<Rightarrow> fault + int" where
  "static_cast_int f =
     (let t = (if 0 \<le> f then \<lfloor>f\<rfloor> else \<lceil>f\<rceil>)
      in if - 2147483648 \<le> t \<and> t \<le> 2147483647 then Inr t else Inl FloatToIntOutOfRange)"

text \<open>Addition of two \<^verbatim>\<open>int\<close> values: undefined when the sum leaves the 32-bit range.\<close>

definition int_add :: "int \<Rightarrow> int \<Rightarrow> fault + int" where
  "int_add a b =
     (if - 2147483648 \<le> a + b \<and> a + b \<le> 2147483647 then Inr (a + b) else Inl SignedOverflow)"

text \<open>
  The conversion of an \<^verbatim>\<open>int\<close> to \<^verbatim>\<open>size_t\<close> (64 bits) that the comparison
  \<^verbatim>\<open>i < laneCount\<close> performs: a negative count wraps around.
\<close>

definition size_t_of_int :: "int \<Rightarrow> nat" where
  "size_t_of_int n = nat (n mod 2 ^ 64)"

text \<open>The C library's \<^verbatim>\<open>atan2\<close> on finite arguments, and \<^verbatim>\<open>glm::radians\<close>.\<close>

definition atan2 :: "real \<Rightarrow> real \<Rightarrow> real" where
  "atan2 b a =
     (if 0 < a then arctan (b / a)
      else if a < 0 \<and> 0 \<le> b then arctan (b / a) + pi
      else if a < 0 then arctan (b / a) - pi
      else if 0 < b then pi / 2
      else if b < 0 then - pi / 2
      else 0)"

definition radians :: "real \<Rightarrow> real" where
  "radians degrees = degrees * (pi / 180)"

section \<open>Junctions and traffic lights\<close>

text \<open>\<^verbatim>\<open>ViewController::drawRectangle\<close>: translate, scale, draw.\<close>

definition drawRectangle :: "vec3 \<Rightarrow> vec3 \<Rightarrow> vec3 \<Rightarrow> DrawCommand" where
  "drawRectangle position scale color =
     \<lparr>model = [Translate position, Scale scale], objectColor = color\<rparr>"

text \<open>
  \<^verbatim>\<open>ViewController::renderTrafficLights\<close>: one marker per connected road. The loop
  over the connected roads is the recursion on the list.
\<close>

fun trafficLightLoop :: "TrafficLightJunction \<Rightarrow> RoadRef list \<Rightarrow> DrawCommand list" where
  "trafficLightLoop junction [] = []"
| "trafficLightLoop junction (road # roads) =
     (let entryPoint = getEntryPoint junction road;
          state = getLightState junction road;
          lightColor = (case state of
                          GREEN \<Rightarrow> vec3 0 1 0
                        | YELLOW \<Rightarrow> vec3 1 1 0
                        | RED \<Rightarrow> vec3 1 0 0);
          lightPos = vec3 (vec_x entryPoint) 0.5 (vec_z entryPoint);
          lightScale = vec3 2 2 2
      in drawRectangle lightPos lightScale lightColor # trafficLightLoop junction roads)"

definition renderTrafficLights :: "TrafficLightJunction \<Rightarrow> DrawCommand list" where
  "renderTrafficLights junction = trafficLightLoop junction (getConnectedRoads junction)"

text \<open>\<^verbatim>\<open>ViewController::renderJunction\<close>: the junction body, then its lights if it has any.\<close>

definition renderJunction :: "Junction \<Rightarrow> DrawCommand list" where
  "renderJunction junction =
     (let junctionPos = getPosition junction;
          radius = getRadius junction;
          position = vec3 (vec_x junctionPos) 0.01 (vec_z junctionPos);
          scale = vec3 (radius * 2) 0.5 (radius * 2);
          trafficJunction = asTrafficLightJunction junction;
          color = (case trafficJunction of None \<Rightarrow> vec3 0.4 0.4 0.4
                                         | Some _ \<Rightarrow> vec3 0.5 0.5 0.6)
      in drawRectangle position scale color #
         (case trafficJunction of None \<Rightarrow> [] | Some tj \<Rightarrow> renderTrafficLights tj))"

section \<open>Vehicles\<close>

text \<open>\<^verbatim>\<open>ViewController::renderVehicle\<close>.\<close>

definition renderVehicle :: "Vehicle \<Rightarrow> RoadSegment \<Rightarrow> DrawCommand" where
  "renderVehicle vehicle road =
     (let lane = getCurrentLane vehicle;
          distance = getDistanceAlongRoad vehicle;
          vehiclePos = getLanePositionAlongRoad road lane distance;
          vehicleDim = Vehicle.getDimensions vehicle;
          vehicleColor = getColor vehicle;
          roadDir = getDirection road;
          angle = atan2 (vec_z roadDir) (vec_x roadDir) * 180 / 3.14159;
          vehColor = vec3 (real_of_int (col_r vehicleColor) / 255)
                          (real_of_int (col_g vehicleColor) / 255)
                          (real_of_int (col_b vehicleColor) / 255)
      in \<lparr>model = [Translate (vec3 (vec_x vehiclePos) 0.02 (vec_z vehiclePos)),
                   Rotate (radians angle) (vec3 0 1 0),
                   Scale (vec3 (vec_x vehicleDim) 1 (vec_z vehicleDim))],
          objectColor = vehColor\<rparr>)"

text \<open>
  The vehicle loop at the end of \<^verbatim>\<open>renderRoadSegment\<close>: a null entry is passed
  over, any other is handed to \<open>renderVehicle\<close>.
\<close>

fun vehicleLoop :: "RoadSegment \<Rightarrow> Vehicle option list \<Rightarrow> DrawCommand list" where
  "vehicleLoop road [] = []"
| "vehicleLoop road (vehicle # vehicles) =
     (case vehicle of
        None \<Rightarrow> vehicleLoop road vehicles
      | Some v \<Rightarrow> renderVehicle v road # vehicleLoop road vehicles)"

section \<open>Road segments\<close>

text \<open>
  The locals of \<^verbatim>\<open>ViewController::renderRoadSegment\<close>, each a function of what it is
  computed from: the camera for the stroke floors, the two junctions (once both
  references are known to be present) for the geometry, the road for its width.
\<close>

definition zoomFactor :: "ViewController \<Rightarrow> real" where
  "zoomFactor vc = (orthographicRight vc - orthographicLeft vc) / 240"

definition minLineThickness :: "ViewController \<Rightarrow> real" where
  "minLineThickness vc = 0.2 * zoomFactor vc"

definition minLineWidth :: "ViewController \<Rightarrow> real" where
  "minLineWidth vc = 0.5 * zoomFactor vc"

definition roadDir :: "Junction \<Rightarrow> Junction \<Rightarrow> Vector3" where
  "roadDir startJunction endJunction =
     normalized (vec_sub (getPosition endJunction) (getPosition startJunction))"

text \<open>Both trims use \<open>junctionRadius\<close>, read from the start junction.\<close>

definition junctionRadius :: "Junction \<Rightarrow> real" where
  "junctionRadius startJunction = getRadius startJunction"

definition adjustedStartPos :: "Junction \<Rightarrow> Junction \<Rightarrow> Vector3" where
  "adjustedStartPos startJunction endJunction =
     vec_add (getPosition startJunction)
       (vec_scale (roadDir startJunction endJunction) (junctionRadius startJunction))"

definition adjustedEndPos :: "Junction \<Rightarrow> Junction \<Rightarrow> Vector3" where
  "adjustedEndPos startJunction endJunction =
     vec_sub (getPosition endJunction)
       (vec_scale (roadDir startJunction endJunction) (junctionRadius startJunction))"

definition adjustedRoadDir :: "Junction \<Rightarrow> Junction \<Rightarrow> Vector3" where
  "adjustedRoadDir startJunction endJunction =
     vec_sub (adjustedEndPos startJunction endJunction)
       (adjustedStartPos startJunction endJunction)"

definition adjustedLength :: "Junction \<Rightarrow> Junction \<Rightarrow> real" where
  "adjustedLength startJunction endJunction =
     vec_length (adjustedRoadDir startJunction endJunction)"

definition roadCenter :: "Junction \<Rightarrow> Junction \<Rightarrow> vec3" where
  "roadCenter startJunction endJunction =
     vec3 ((vec_x (adjustedStartPos startJunction endJunction)
             + vec_x (adjustedEndPos startJunction endJunction)) / 2)
          0.01
          ((vec_z (adjustedStartPos startJunction endJunction)
             + vec_z (adjustedEndPos startJunction endJunction)) / 2)"

definition roadWidth :: "RoadSegment \<Rightarrow> real" where
  "roadWidth road = vec_z (RoadSegment.getDimensions road)"

definition roadAngle :: "Junction \<Rightarrow> Junction \<Rightarrow> real" where
  "roadAngle startJunction endJunction =
     atan2 (vec_z (roadDir startJunction endJunction))
           (vec_x (roadDir startJunction endJunction)) * 180 / 3.14159"

text \<open>The road body: the unit quad stretched to adjusted length by road width.\<close>

definition roadBody :: "Junction \<Rightarrow> Junction \<Rightarrow> RoadSegment \<Rightarrow> DrawCommand" where
  "roadBody startJunction endJunction road =
     \<lparr>model = [Translate (roadCenter startJunction endJunction),
                Rotate (radians (roadAngle startJunction endJunction)) (vec3 0 1 0),
                Scale (vec3 (adjustedLength startJunction endJunction) 1 (roadWidth road))],
      objectColor = vec3 0.3 0.3 0.3\<rparr>"

definition laneWidth :: "RoadSegment \<Rightarrow> real" where
  "laneWidth road = roadWidth road / real_of_int (getLaneCount road)"

definition lanePosition :: "RoadSegment \<Rightarrow> nat \<Rightarrow> real" where
  "lanePosition road i = - roadWidth road / 2 + real i * laneWidth road"

text \<open>The solid stroke of a boundary between lanes of different type.\<close>

definition solidLine ::
  "ViewController \<Rightarrow> Junction \<Rightarrow> Junction \<Rightarrow> RoadSegment \<Rightarrow> nat \<Rightarrow> DrawCommand" where
  "solidLine vc startJunction endJunction road i =
     \<lparr>model = [Translate (roadCenter startJunction endJunction),
                Rotate (radians (roadAngle startJunction endJunction)) (vec3 0 1 0),
                Translate (vec3 0 0.05 (lanePosition road i)),
                Scale (vec3 (adjustedLength startJunction endJunction)
                            (max 0.2 (minLineThickness vc)) (max 0.2 (minLineWidth vc)))],
      objectColor = vec3 1 1 1\<rparr>"

text \<open>One dash of a dashed boundary: the body of the inner loop.\<close>

definition dashLine ::
  "ViewController \<Rightarrow> Junction \<Rightarrow> Junction \<Rightarrow> RoadSegment \<Rightarrow> nat \<Rightarrow> int \<Rightarrow> DrawCommand" where
  "dashLine vc startJunction endJunction road i dashIdx =
     (let dashLength = 3;
          gapLength = 7;
          spacing = dashLength + gapLength;
          dashOffset = - adjustedLength startJunction endJunction / 2
                       + real_of_int dashIdx * spacing + dashLength / 2
      in \<lparr>model = [Translate (roadCenter startJunction endJunction),
                   Rotate (radians (roadAngle startJunction endJunction)) (vec3 0 1 0),
                   Translate (vec3 dashOffset 0.05 (lanePosition road i)),
                   Scale (vec3 dashLength (max 0.1 (minLineThickness vc))
                               (max 0.5 (minLineWidth vc)))],
          objectColor = vec3 1 1 1\<rparr>)"

text \<open>The inner loop \<^verbatim>\<open>for (int dashIdx = 0; dashIdx < dashCount; dashIdx++)\<close>.\<close>

function dashLoop ::
  "ViewController \<Rightarrow> Junction \<Rightarrow> Junction \<Rightarrow> RoadSegment \<Rightarrow> nat \<Rightarrow> int \<Rightarrow> int
     \<Rightarrow> DrawCommand list" where
  "dashLoop vc startJunction endJunction road i dashIdx dashCount =
     (if dashIdx < dashCount
      then dashLine vc startJunction endJunction road i dashIdx
             # dashLoop vc startJunction endJunction road i (dashIdx + 1) dashCount
      else [])"
  by pat_completeness auto
termination
  by (relation "measure (\<lambda>(vc, s, e, road, i, dashIdx, dashCount). nat (dashCount - dashIdx))")
     auto

declare dashLoop.simps [simp del]

text \<open>
  The body of the outer loop for boundary \<open>i\<close>. \<^verbatim>\<open>lanes[i - 1]\<close> and \<^verbatim>\<open>lanes[i]\<close>
  are unchecked reads; with \<open>i \<ge> 1\<close> both are in range exactly when
  \<open>i < length lanes\<close>.
\<close>

definition laneMarking ::
  "ViewController \<Rightarrow> Junction \<Rightarrow> Junction \<Rightarrow> RoadSegment \<Rightarrow> nat
     \<Rightarrow> fault + DrawCommand list" where
  "laneMarking vc startJunction endJunction road i =
     (let lanes = getLanes road
      in if \<not> i < length lanes then Inl IndexOutOfBounds
         else
           let isShoulderBoundary = (getType (lanes ! (i - 1)) \<noteq> getType (lanes ! i))
           in if isShoulderBoundary
              then Inr [solidLine vc startJunction endJunction road i]
              else
                let dashLength = 3;
                    gapLength = 7;
                    spacing = dashLength + gapLength
                in case static_cast_int (adjustedLength startJunction endJunction / spacing) of
                     Inl f \<Rightarrow> Inl f
                   | Inr q \<Rightarrow>
                       (case int_add q 1 of
                          Inl f \<Rightarrow> Inl f
                        | Inr dashCount \<Rightarrow>
                            Inr (dashLoop vc startJunction endJunction road i 0 dashCount)))"

text \<open>
  The outer loop \<^verbatim>\<open>for (size_t i = 1; i < laneCount; i++)\<close>, with the bound already
  converted to \<^verbatim>\<open>size_t\<close>. It stops at the first fault.
\<close>

function laneLoop ::
  "ViewController \<Rightarrow> Junction \<Rightarrow> Junction \<Rightarrow> RoadSegment \<Rightarrow> nat \<Rightarrow> nat
     \<Rightarrow> fault + DrawCommand list" where
  "laneLoop vc startJunction endJunction road i laneCount =
     (if i < laneCount
      then (case laneMarking vc startJunction endJunction road i of
              Inl f \<Rightarrow> Inl f
            | Inr cmds \<Rightarrow>
                (case laneLoop vc startJunction endJunction road (i + 1) laneCount of
                   Inl f \<Rightarrow> Inl f
                 | Inr rest \<Rightarrow> Inr (cmds @ rest)))
      else Inr [])"
  by pat_completeness auto
termination
  by (relation "measure (\<lambda>(vc, s, e, road, i, laneCount). laneCount - i)") auto

declare laneLoop.simps [simp del]

text \<open>
  \<^verbatim>\<open>ViewController::renderRoadSegment\<close>: nothing for a road with a missing junction
  or a degenerate adjusted length; otherwise the road body, the lane markings and
  the vehicles, in this order.
\<close>

definition renderRoadSegment :: "ViewController \<Rightarrow> RoadSegment \<Rightarrow> fault + DrawCommand list" where
  "renderRoadSegment vc road =
     (case getStartJunction road of
        None \<Rightarrow> Inr []
      | Some startJunction \<Rightarrow>
          (case getEndJunction road of
             None \<Rightarrow> Inr []
           | Some endJunction \<Rightarrow>
               if adjustedLength startJunction endJunction \<le> 0.001 then Inr []
               else
                 (case laneLoop vc startJunction endJunction road 1
                         (size_t_of_int (getLaneCount road)) of
                    Inl f \<Rightarrow> Inl f
                  | Inr markings \<Rightarrow>
                      Inr (roadBody startJunction endJunction road # markings
                           @ vehicleLoop road (getVehicles road)))))"

section \<open>Auxiliary definitions for the proofs\<close>

text \<open>
  The strokes of boundary \<open>i\<close> when neither the lane reads nor the dash count fault:
  one solid stroke where the lane types differ, the dashes \<open>0 .. \<lfloor>L / 10\<rfloor>\<close>
  otherwise. The lemmas below show that \<open>laneMarking\<close> returns exactly these.
\<close>

definition boundaryStrokes ::
  "ViewController \<Rightarrow> Junction \<Rightarrow> Junction \<Rightarrow> RoadSegment \<Rightarrow> nat \<Rightarrow> DrawCommand list" where
  "boundaryStrokes vc s e road i =
     (if getType (getLanes road ! (i - 1)) \<noteq> getType (getLanes road ! i)
      then [solidLine vc s e road i]
      else map (dashLine vc s e road i) [0..\<lfloor>adjustedLength s e / 10\<rfloor>])"

text \<open>
  A concrete scene for the examples: a road along the x axis from a junction of radius 1
  at the origin to a junction of radius 5 at x = 105, so that the adjusted length is 103;
  three lanes of types car, car, bike (0, 0, 1) across a width of 9; a null entry and
  one vehicle in the vehicle list; a camera with a horizontal extent of 240.
\<close>

definition exampleCamera :: ViewController where
  "exampleCamera = cameraWith (- 120) 120 (- 67.5) 67.5"

definition exampleStart :: Junction where
  "exampleStart = \<lparr>getPosition = Vector3 0 0 0, getRadius = 1, asTrafficLightJunction = None\<rparr>"

definition exampleEnd :: Junction where
  "exampleEnd = \<lparr>getPosition = Vector3 105 0 0, getRadius = 5, asTrafficLightJunction = None\<rparr>"

definition exampleVehicle :: Vehicle where
  "exampleVehicle = \<lparr>getCurrentLane = 0, getDistanceAlongRoad = 50,
     getDimensions = Vector3 4 1.5 2, getColor = Color 255 0 0\<rparr>"

definition exampleRoad :: RoadSegment where
  "exampleRoad = \<lparr>getStartJunction = Some exampleStart, getEndJunction = Some exampleEnd,
     getDimensions = Vector3 105 0 9,
     getLanes = [\<lparr>getType = 0\<rparr>, \<lparr>getType = 0\<rparr>, \<lparr>getType = 1\<rparr>],
     getLaneCount = 3,
     getVehicles = [None, Some exampleVehicle],
     getLanePositionAlongRoad = (\<lambda>lane distance. Vector3 12 0 34),
     getDirection = Vector3 1 0 0\<rparr>"





text \<open>A traffic-light junction with one connected road, whose light is red.\<close>

definition exampleLights :: TrafficLightJunction where
  "exampleLights = \<lparr>getConnectedRoads = [7], getEntryPoint = (\<lambda>road. Vector3 3 0 4),
     getLightState = (\<lambda>road. RED)\<rparr>"

definition exampleLightJunction :: Junction where
  "exampleLightJunction = \<lparr>getPosition = Vector3 0 0 0, getRadius = 6,
     asTrafficLightJunction = Some exampleLights\<rparr>"

section \<open>Zoom: proofs\<close>











lemma processScroll_pinned:
  assumes "boundsPinned vc" "d \<le> 0"
  shows "processScroll vc d = vc"
proof -
  let ?f = "1 + (- d * 10 / 100)"
  have f: "1 \<le> ?f" using assms(2) by simp
  have p: "orthographicLeft vc = - 3200" "orthographicRight vc = 3200"
      "orthographicBottom vc = - 1800" "orthographicTop vc = 1800"
    using assms(1) by (simp_all add: boundsPinned_def)
  have "3200 * 1 \<le> 3200 * ?f" "1800 * 1 \<le> 1800 * ?f"
    using f by (simp_all only: mult_le_cancel_left_pos zero_less_numeral)
  then have m: "max (- 3200 * ?f) (- 3200) = - 3200" "min (3200 * ?f) 3200 = 3200"
      "max (- 1800 * ?f) (- 1800) = - 1800" "min (1800 * ?f) 1800 = 1800"
    by (simp_all add: max_def min_def)
  have "processScroll vc d = vc\<lparr>orthographicLeft := - 3200, orthographicRight := 3200,
          orthographicBottom := - 1800, orthographicTop := 1800\<rparr>"
    using m by (simp add: processScroll_def Let_def p)
  also have "\<dots> = vc" using p by simp
  finally show ?thesis .
qed

text \<open>
  Claim C9. Once the four bounds sit at the clamp limits (-3200, 3200, -1800, 1800),
  any run of scroll events with non-positive deltas (zoom factor at least 1) leaves the
  whole camera state unchanged.
\<close>

theorem zoom_out_pinned_idempotent:
  assumes "boundsPinned vc" "\<forall>d \<in> set ds. d \<le> 0"
  shows "processScrolls vc ds = vc"
  using assms
proof (induction ds)
  case Nil
  then show ?case by (simp add: processScrolls_def)
next
  case (Cons d ds)
  have "processScroll vc d = vc" using Cons.prems by (simp add: processScroll_pinned)
  then have "processScrolls vc (d # ds) = processScrolls vc ds"
    by (simp add: processScrolls_def)
  then show ?case using Cons by simp
qed

theorem zoom_out_pinned_idempotent_witness:
  "boundsPinned (cameraWith (- 3200) 3200 (- 1800) 1800)
   \<and> processScrolls (cameraWith (- 3200) 3200 (- 1800) 1800) [0, - 1, - 2.5]
       = cameraWith (- 3200) 3200 (- 1800) 1800"
proof -
  have p: "boundsPinned (cameraWith (- 3200) 3200 (- 1800) 1800)"
    by (simp add: boundsPinned_def cameraWith_def)
  have q: "\<forall>d \<in> set [0, - 1, - 2.5]. d \<le> (0::real)" by simp
  show ?thesis using p zoom_out_pinned_idempotent [OF p q] by simp
qed




section \<open>Road segments: the loops\<close>

lemma dashLoop_upto:
  "dashLoop vc s e road i a n = map (dashLine vc s e road i) [a..n - 1]"
proof (induction vc s e road i a n rule: dashLoop.induct)
  case (1 vc s e road i a n)
  show ?case
  proof (cases "a < n")
    case True
    then have "[a..n - 1] = a # [a + 1..n - 1]" by (simp add: upto_rec1)
    with True 1 show ?thesis by (simp add: dashLoop.simps [of _ _ _ _ _ a n])
  next
    case False
    then show ?thesis by (simp add: dashLoop.simps [of _ _ _ _ _ a n])
  qed
qed

lemma static_cast_int_nonneg:
  assumes "0 \<le> f" "f < 2147483647"
  shows "static_cast_int f = Inr \<lfloor>f\<rfloor>"
proof -
  have "0 \<le> \<lfloor>f\<rfloor>" using assms(1) by simp
  moreover have "\<lfloor>f\<rfloor> < 2147483647" using assms(2) by (simp add: floor_less_iff)
  ultimately show ?thesis using assms(1) by (simp add: static_cast_int_def Let_def)
qed

lemma dashCount_ok:
  assumes "0 \<le> f" "f < 2147483647"
  shows "int_add \<lfloor>f\<rfloor> 1 = Inr (\<lfloor>f\<rfloor> + 1)"
proof -
  have "0 \<le> \<lfloor>f\<rfloor>" using assms(1) by simp
  moreover have "\<lfloor>f\<rfloor> < 2147483647" using assms(2) by (simp add: floor_less_iff)
  ultimately show ?thesis by (simp add: int_add_def)
qed

lemma laneMarking_ok:
  assumes "i < length (getLanes road)" "0 \<le> adjustedLength s e"
    "adjustedLength s e / 10 < 2147483647"
  shows "laneMarking vc s e road i = Inr (boundaryStrokes vc s e road i)"
proof -
  have q: "0 \<le> adjustedLength s e / 10" using assms(2) by simp
  show ?thesis
    using assms(1) static_cast_int_nonneg [OF q assms(3)] dashCount_ok [OF q assms(3)]
    by (simp add: laneMarking_def boundaryStrokes_def Let_def dashLoop_upto)
qed

lemma laneLoop_ok:
  assumes "n \<le> length (getLanes road)" "0 \<le> adjustedLength s e"
    "adjustedLength s e / 10 < 2147483647"
  shows "laneLoop vc s e road i n = Inr (concat (map (boundaryStrokes vc s e road) [i..<n]))"
  using assms
proof (induction vc s e road i n rule: laneLoop.induct)
  case (1 vc s e road i n)
  show ?case
  proof (cases "i < n")
    case True
    then have il: "i < length (getLanes road)" using 1(2) by simp
    have m: "laneMarking vc s e road i = Inr (boundaryStrokes vc s e road i)"
      using laneMarking_ok [OF il 1(3) 1(4)] .
    have r: "laneLoop vc s e road (i + 1) n
             = Inr (concat (map (boundaryStrokes vc s e road) [i + 1..<n]))"
      using 1(1) [OF True m 1(2) 1(3) 1(4)] .
    have u: "[i..<n] = i # [i + 1..<n]" using True by (simp add: upt_rec)
    show ?thesis using True m r u by (simp add: laneLoop.simps [of _ _ _ _ i n])
  next
    case False
    then show ?thesis by (simp add: laneLoop.simps [of _ _ _ _ i n])
  qed
qed

section \<open>Road segments: geometry and structure of the output\<close>

lemma vec_length_zero: "vec_length (Vector3 0 0 0) = 0"
  by (simp add: vec_length_def)

lemma normalized_zero: "normalized (Vector3 0 0 0) = Vector3 0 0 0"
  by (simp add: normalized_def vec_length_zero)

lemma vec_sub_self: "vec_sub a a = Vector3 0 0 0"
  by (simp add: vec_sub_def)

lemma adjustedLength_coincident:
  assumes "getPosition s = getPosition e"
  shows "adjustedLength s e = 0"
proof -
  have d: "roadDir s e = Vector3 0 0 0"
    using assms by (simp add: roadDir_def vec_sub_self normalized_zero)
  have "adjustedRoadDir s e = Vector3 0 0 0"
    using assms by (simp add: adjustedRoadDir_def adjustedEndPos_def adjustedStartPos_def d
        vec_scale_def vec_add_def vec_sub_def)
  then show ?thesis by (simp add: adjustedLength_def vec_length_zero)
qed

lemma vehicleLoop_filter:
  "vehicleLoop road vehicles = map (\<lambda>v. renderVehicle v road) [v. Some v \<leftarrow> vehicles]"
  by (induction vehicles) (auto split: option.splits)

lemma vehicleLoop_append:
  "vehicleLoop road (xs @ ys) = vehicleLoop road xs @ vehicleLoop road ys"
  by (induction xs) (auto split: option.splits)

lemma renderVehicle_translation:
  "translation (renderVehicle vehicle road) =
     Some (vec3 (vec_x (getLanePositionAlongRoad road (getCurrentLane vehicle) (getDistanceAlongRoad vehicle))) 0.02
                (vec_z (getLanePositionAlongRoad road (getCurrentLane vehicle) (getDistanceAlongRoad vehicle))))"
  by (simp add: translation_def renderVehicle_def Let_def)

lemma vehicleLoop_member:
  "Some vehicle \<in> set vehicles \<Longrightarrow> renderVehicle vehicle road \<in> set (vehicleLoop road vehicles)"
  by (induction vehicles) (auto split: option.splits)

lemma renderRoadSegment_nonempty:
  assumes "renderRoadSegment vc road = Inr cmds" "cmds \<noteq> []"
  shows "\<exists>s e markings. getStartJunction road = Some s \<and> getEndJunction road = Some e
     \<and> \<not> adjustedLength s e \<le> 0.001
     \<and> laneLoop vc s e road 1 (size_t_of_int (getLaneCount road)) = Inr markings
     \<and> cmds = roadBody s e road # markings @ vehicleLoop road (getVehicles road)"
  using assms
  by (auto simp: renderRoadSegment_def split: option.splits if_splits sum.splits)

lemma size_t_of_int_small:
  assumes "0 \<le> n" "n \<le> 2147483647"
  shows "size_t_of_int n = nat n"
  using assms by (simp add: size_t_of_int_def)

lemma renderRoadSegment_rendered:
  assumes "getStartJunction road = Some s" "getEndJunction road = Some e"
    "0.001 < adjustedLength s e" "adjustedLength s e / 10 < 2147483647"
    "0 \<le> getLaneCount road" "getLaneCount road \<le> 2147483647"
    "nat (getLaneCount road) \<le> length (getLanes road)"
  shows "renderRoadSegment vc road =
     Inr (roadBody s e road
          # concat (map (boundaryStrokes vc s e road) [1..<nat (getLaneCount road)])
          @ vehicleLoop road (getVehicles road))"
proof -
  have nn: "0 \<le> adjustedLength s e" using assms(3) by simp
  have "laneLoop vc s e road 1 (size_t_of_int (getLaneCount road))
        = Inr (concat (map (boundaryStrokes vc s e road) [1..<nat (getLaneCount road)]))"
    using laneLoop_ok [OF assms(7) nn assms(4)] size_t_of_int_small [OF assms(5,6)] by simp
  then show ?thesis using assms(1,2,3) by (simp add: renderRoadSegment_def)
qed




lemma geometry_cong:
  assumes "getPosition e' = getPosition e"
  shows "roadDir s e' = roadDir s e" "adjustedStartPos s e' = adjustedStartPos s e"
    "adjustedEndPos s e' = adjustedEndPos s e" "adjustedLength s e' = adjustedLength s e"
    "roadCenter s e' = roadCenter s e" "roadAngle s e' = roadAngle s e"
proof -
  show d: "roadDir s e' = roadDir s e" using assms by (simp add: roadDir_def)
  show a: "adjustedStartPos s e' = adjustedStartPos s e"
    using assms d by (simp add: adjustedStartPos_def)
  show b: "adjustedEndPos s e' = adjustedEndPos s e"
    using assms d by (simp add: adjustedEndPos_def)
  show "adjustedLength s e' = adjustedLength s e"
    using a b by (simp add: adjustedLength_def adjustedRoadDir_def)
  show "roadCenter s e' = roadCenter s e" using a b by (simp add: roadCenter_def)
  show "roadAngle s e' = roadAngle s e" using d by (simp add: roadAngle_def)
qed

lemma strokes_cong:
  assumes "getPosition e' = getPosition e"
    "getLanes road' = getLanes road" "getLaneCount road' = getLaneCount road"
    "RoadSegment.getDimensions road' = RoadSegment.getDimensions road"
  shows "roadBody s e' road' = roadBody s e road"
    "solidLine vc s e' road' i = solidLine vc s e road i"
    "dashLine vc s e' road' i k = dashLine vc s e road i k"
proof -
  have w: "roadWidth road' = roadWidth road" using assms(4) by (simp add: roadWidth_def)
  then have p: "lanePosition road' i = lanePosition road i"
    using assms(3) by (simp add: lanePosition_def laneWidth_def)
  show "roadBody s e' road' = roadBody s e road"
    using w geometry_cong [OF assms(1)] by (simp add: roadBody_def)
  show "solidLine vc s e' road' i = solidLine vc s e road i"
    using p geometry_cong [OF assms(1)] by (simp add: solidLine_def)
  show "dashLine vc s e' road' i k = dashLine vc s e road i k"
    using p geometry_cong [OF assms(1)] by (simp add: dashLine_def)
qed

lemma laneMarking_cong:
  assumes "getPosition e' = getPosition e"
    "getLanes road' = getLanes road" "getLaneCount road' = getLaneCount road"
    "RoadSegment.getDimensions road' = RoadSegment.getDimensions road"
  shows "laneMarking vc s e' road' i = laneMarking vc s e road i"
  using assms(2) geometry_cong(4) [OF assms(1)] strokes_cong(2,3) [OF assms]
  by (simp add: laneMarking_def dashLoop_upto Let_def split: sum.splits)

lemma laneLoop_cong:
  assumes "getPosition e' = getPosition e"
    "getLanes road' = getLanes road" "getLaneCount road' = getLaneCount road"
    "RoadSegment.getDimensions road' = RoadSegment.getDimensions road"
  shows "laneLoop vc s e' road' i n = laneLoop vc s e road i n"
  using assms
proof (induction vc s e road i n rule: laneLoop.induct)
  case (1 vc s e road i n)
  show ?case
  proof (cases "i < n")
    case True
    have m: "laneMarking vc s e' road' i = laneMarking vc s e road i"
      using laneMarking_cong [OF 1(2-5)] .
    show ?thesis
    proof (cases "laneMarking vc s e road i")
      case (Inl f)
      then show ?thesis using True m
        by (simp add: laneLoop.simps [of _ _ _ _ i n])
    next
      case (Inr cmds)
      have "laneLoop vc s e' road' (i + 1) n = laneLoop vc s e road (i + 1) n"
        using 1(1) [OF True Inr 1(2-5)] .
      then show ?thesis using True m Inr
        by (simp add: laneLoop.simps [of _ _ _ _ i n])
    qed
  next
    case False
    then show ?thesis by (simp add: laneLoop.simps [of _ _ _ _ i n])
  qed
qed

lemma renderVehicle_cong:
  assumes "getLanePositionAlongRoad road' = getLanePositionAlongRoad road"
    "getDirection road' = getDirection road"
  shows "renderVehicle v road' = renderVehicle v road"
  using assms by (simp add: renderVehicle_def)

lemma vehicleLoop_cong:
  assumes "getLanePositionAlongRoad road' = getLanePositionAlongRoad road"
    "getDirection road' = getDirection road"
  shows "vehicleLoop road' vehicles = vehicleLoop road vehicles"
  using renderVehicle_cong [OF assms] by (simp add: vehicleLoop_filter)

section \<open>The example scene, evaluated\<close>

lemma vec_length_x: "vec_length (Vector3 a 0 0) = \<bar>a\<bar>"
  by (simp add: vec_length_def)

lemma example_junctions:
  "getPosition exampleStart = Vector3 0 0 0" "getRadius exampleStart = 1"
  "getPosition exampleEnd = Vector3 105 0 0" "getRadius exampleEnd = 5"
  by (simp_all add: exampleStart_def exampleEnd_def)

lemma example_roadDir: "roadDir exampleStart exampleEnd = Vector3 1 0 0"
  by (simp add: roadDir_def example_junctions vec_sub_def normalized_def
      vec_length_x Let_def)

lemma example_adjusted:
  "adjustedStartPos exampleStart exampleEnd = Vector3 1 0 0"
  "adjustedEndPos exampleStart exampleEnd = Vector3 104 0 0"
  by (simp_all add: adjustedStartPos_def adjustedEndPos_def example_roadDir junctionRadius_def
      vec_add_def vec_sub_def vec_scale_def example_junctions)

lemma example_adjustedLength: "adjustedLength exampleStart exampleEnd = 103"
  by (simp add: adjustedLength_def adjustedRoadDir_def example_adjusted vec_sub_def vec_length_x)





lemma upto_0_10: "[0..(10::int)] = [0, 1, 2, 3, 4, 5, 6, 7, 8, 9, 10]"
  by (simp add: upto.simps)

lemma example_road:
  "getStartJunction exampleRoad = Some exampleStart"
  "getEndJunction exampleRoad = Some exampleEnd"
  "getLaneCount exampleRoad = 3"
  "getLanes exampleRoad = [\<lparr>getType = 0\<rparr>, \<lparr>getType = 0\<rparr>, \<lparr>getType = 1\<rparr>]"
  "getVehicles exampleRoad = [None, Some exampleVehicle]"
  "roadWidth exampleRoad = 9"
  "getLanePositionAlongRoad exampleRoad = (\<lambda>lane distance. Vector3 12 0 34)"
  by (simp_all add: exampleRoad_def roadWidth_def)

lemma example_hyps:
  "0.001 < adjustedLength exampleStart exampleEnd"
  "adjustedLength exampleStart exampleEnd / 10 < 2147483647"
  "0 \<le> getLaneCount exampleRoad" "getLaneCount exampleRoad \<le> 2147483647"
  "nat (getLaneCount exampleRoad) \<le> length (getLanes exampleRoad)"
  by (simp_all add: example_adjustedLength example_road)


lemma example_floor: "\<lfloor>adjustedLength exampleStart exampleEnd / 10\<rfloor> = 10"
  by (simp add: example_adjustedLength)

lemma upt_1_3: "[Suc 0..<3] = [Suc 0, 2]"
  by (simp add: upt_rec)

lemma example_render:
  "renderRoadSegment exampleCamera exampleRoad =
     Inr (roadBody exampleStart exampleEnd exampleRoad
          # map (dashLine exampleCamera exampleStart exampleEnd exampleRoad 1)
              [0, 1, 2, 3, 4, 5, 6, 7, 8, 9, 10]
          @ [solidLine exampleCamera exampleStart exampleEnd exampleRoad 2,
             renderVehicle exampleVehicle exampleRoad])"
  using renderRoadSegment_rendered [OF example_road(1,2) example_hyps, of exampleCamera]
  by (simp add: example_road upt_1_3 boundaryStrokes_def example_floor upto_0_10)

section \<open>Where the side conditions matter\<close>

text \<open>
  The lane reads and the dash count are unchecked in the source. A lane count beyond the
  stored lanes (a negative count, once converted to \<^verbatim>\<open>size_t\<close>, among them) runs
  the outer loop into an out-of-range read; a road so long that L / 10 leaves the range
  of \<^verbatim>\<open>int\<close> makes the conversion of the dash count undefined. Well before that,
  from L = 41943048 on, the binary32 quotient L / 10 can round up to the next integer,
  which the real quotient of this model does not show. The results on lane markings
  below therefore assume a lane count within the stored lanes and L below 41943040.
\<close>

lemma laneMarking_out_of_range:
  "\<not> i < length (getLanes road) \<Longrightarrow> laneMarking vc s e road i = Inl IndexOutOfBounds"
  by (simp add: laneMarking_def)

lemma laneLoop_overrun:
  assumes "0 \<le> adjustedLength s e" "adjustedLength s e / 10 < 2147483647"
    "i \<le> length (getLanes road)" "length (getLanes road) < n"
  shows "laneLoop vc s e road i n = Inl IndexOutOfBounds"
  using assms
proof (induction vc s e road i n rule: laneLoop.induct)
  case (1 vc s e road i n)
  have lt: "i < n" using 1(4,5) by simp
  show ?case
  proof (cases "i < length (getLanes road)")
    case True
    have m: "laneMarking vc s e road i = Inr (boundaryStrokes vc s e road i)"
      using laneMarking_ok [OF True 1(2,3)] .
    have "laneLoop vc s e road (i + 1) n = Inl IndexOutOfBounds"
      using 1(1) [OF lt m 1(2,3) _ 1(5)] True by simp
    then show ?thesis using lt m by (simp add: laneLoop.simps [of _ _ _ _ i n])
  next
    case False
    then show ?thesis using lt laneMarking_out_of_range [OF False]
      by (simp add: laneLoop.simps [of _ _ _ _ i n])
  qed
qed

lemma negative_lane_count_faults:
  "renderRoadSegment exampleCamera (exampleRoad\<lparr>getLaneCount := - 1\<rparr>) = Inl IndexOutOfBounds"
proof -
  let ?road = "exampleRoad\<lparr>getLaneCount := - 1\<rparr>"
  have n: "size_t_of_int (getLaneCount ?road) = 18446744073709551615"
    by (simp add: size_t_of_int_def)
  have l: "laneLoop exampleCamera exampleStart exampleEnd ?road 1 18446744073709551615
           = Inl IndexOutOfBounds"
    by (rule laneLoop_overrun) (simp_all add: example_adjustedLength exampleRoad_def)
  show ?thesis using n l example_hyps(1)
    by (simp add: renderRoadSegment_def exampleRoad_def)
qed

lemma long_road_faults:
  assumes "getStartJunction road = Some s" "getEndJunction road = Some e"
    "21474836480 \<le> adjustedLength s e" "getLanes road = [l, l]" "getLaneCount road = 2"
  shows "renderRoadSegment vc road = Inl FloatToIntOutOfRange"
proof -
  have "2147483648 \<le> adjustedLength s e / 10" using assms(3) by simp
  then have f: "2147483648 \<le> \<lfloor>adjustedLength s e / 10\<rfloor>" by (simp add: le_floor_iff)
  then have c: "static_cast_int (adjustedLength s e / 10) = Inl FloatToIntOutOfRange"
    using assms(3) by (simp add: static_cast_int_def Let_def)
  have m: "laneMarking vc s e road 1 = Inl FloatToIntOutOfRange"
    using c assms(4) by (simp add: laneMarking_def Let_def)
  have "laneLoop vc s e road 1 (size_t_of_int (getLaneCount road)) = Inl FloatToIntOutOfRange"
    using m assms(5) by (simp add: laneLoop.simps [of _ _ _ _ "Suc 0" 2] size_t_of_int_def)
  then show ?thesis using assms(1,2,3) by (simp add: renderRoadSegment_def)
qed





section \<open>Road segments: the claims\<close>

text \<open>
  Claim C6. A road whose start junction reference or end junction reference is null
  emits no draw command, and rendering it returns normally (no fault).
\<close>

theorem missing_junction_skipped:
  assumes "getStartJunction road = None \<or> getEndJunction road = None"
  shows "renderRoadSegment vc road = Inr []"
  using assms by (auto simp: renderRoadSegment_def split: option.splits)

text \<open>The example road with its start, or its end, junction removed.\<close>

theorem missing_junction_skipped_witness:
  "renderRoadSegment exampleCamera (exampleRoad\<lparr>getStartJunction := None\<rparr>) = Inr []
   \<and> renderRoadSegment exampleCamera (exampleRoad\<lparr>getEndJunction := None\<rparr>) = Inr []"
  using missing_junction_skipped [of "exampleRoad\<lparr>getStartJunction := None\<rparr>" exampleCamera]
    missing_junction_skipped [of "exampleRoad\<lparr>getEndJunction := None\<rparr>" exampleCamera]
  by simp

text \<open>
  Claim C2. A road whose two junctions are present and have the same position has an
  adjusted length of at most 0.001, and rendering it emits no draw command at all (no
  road body, no lane marking, no vehicle) and returns normally.
\<close>

theorem coincident_junctions_skipped:
  assumes "getStartJunction road = Some s" "getEndJunction road = Some e"
    "getPosition s = getPosition e"
  shows "adjustedLength s e \<le> 0.001 \<and> renderRoadSegment vc road = Inr []"
  using assms adjustedLength_coincident [OF assms(3)]
  by (simp add: renderRoadSegment_def)

text \<open>The example road with its end junction moved onto its start junction.\<close>

theorem coincident_junctions_skipped_witness:
  "renderRoadSegment exampleCamera
     (exampleRoad\<lparr>getEndJunction := Some (exampleStart\<lparr>getRadius := 5\<rparr>)\<rparr>) = Inr []"
  using coincident_junctions_skipped
    [of "exampleRoad\<lparr>getEndJunction := Some (exampleStart\<lparr>getRadius := 5\<rparr>)\<rparr>"
        exampleStart "exampleStart\<lparr>getRadius := 5\<rparr>" exampleCamera]
  by (simp add: example_road)

text \<open>
  Claim C4. For a road with both junctions present, the trimmed start is
  start + dir * rs and the trimmed end is end - dir * rs, where dir is the
  normalised difference end - start and rs is the radius of the start junction.
  The radius of the end junction is never used: replacing it by any other value changes
  neither trimmed endpoint nor anything that rendering the road returns.
\<close>

theorem trim_uses_start_radius:
  assumes "getStartJunction road = Some s" "getEndJunction road = Some e"
  shows "adjustedStartPos s e =
           vec_add (getPosition s)
             (vec_scale (normalized (vec_sub (getPosition e) (getPosition s))) (getRadius s))
   \<and> adjustedEndPos s e =
           vec_sub (getPosition e)
             (vec_scale (normalized (vec_sub (getPosition e) (getPosition s))) (getRadius s))
   \<and> adjustedStartPos s (e\<lparr>getRadius := r\<rparr>) = adjustedStartPos s e
   \<and> adjustedEndPos s (e\<lparr>getRadius := r\<rparr>) = adjustedEndPos s e
   \<and> renderRoadSegment vc (road\<lparr>getEndJunction := Some (e\<lparr>getRadius := r\<rparr>)\<rparr>)
       = renderRoadSegment vc road"
proof -
  let ?e = "e\<lparr>getRadius := r\<rparr>"
  let ?road = "road\<lparr>getEndJunction := Some ?e\<rparr>"
  have p: "getPosition ?e = getPosition e" by simp
  have f: "getLanes ?road = getLanes road" "getLaneCount ?road = getLaneCount road"
    "RoadSegment.getDimensions ?road = RoadSegment.getDimensions road" by simp_all
  have g: "getLanePositionAlongRoad ?road = getLanePositionAlongRoad road"
    "getDirection ?road = getDirection road" by simp_all
  have "renderRoadSegment vc ?road = renderRoadSegment vc road"
    using assms geometry_cong(4) [OF p, of s] laneLoop_cong [OF p f, of vc s]
      strokes_cong(1) [OF p f, of s] vehicleLoop_cong [OF g]
    by (simp add: renderRoadSegment_def split: sum.splits)
  then show ?thesis
    using geometry_cong(2,3) [OF p, of s]
    by (simp add: adjustedStartPos_def adjustedEndPos_def roadDir_def junctionRadius_def)
qed

text \<open>
  On the example road the radii are 1 and 5: both ends are trimmed by 1, and an end
  radius of 40 draws the same road.
\<close>

theorem trim_uses_start_radius_witness:
  "getRadius exampleStart = 1 \<and> getRadius exampleEnd = 5
   \<and> adjustedStartPos exampleStart exampleEnd = Vector3 1 0 0
   \<and> adjustedEndPos exampleStart exampleEnd = Vector3 104 0 0
   \<and> renderRoadSegment exampleCamera
        (exampleRoad\<lparr>getEndJunction := Some (exampleEnd\<lparr>getRadius := 40\<rparr>)\<rparr>)
       = renderRoadSegment exampleCamera exampleRoad"
  using trim_uses_start_radius [OF example_road(1,2), of 40 exampleCamera]
  by (simp add: example_adjusted example_junctions)







text \<open>
  Claim C10. The vehicle loop of a road emits one command for each non-null entry of the
  vehicle list, in order, each the result of \<open>renderVehicle\<close> on that vehicle, and
  nothing for a null entry: the number of commands is the number of non-null entries,
  and a null entry anywhere in the list changes neither the commands of the loop nor
  anything that rendering the road returns.
\<close>

theorem null_vehicles_skipped:
  "vehicleLoop road vehicles = map (\<lambda>v. renderVehicle v road) [v. Some v \<leftarrow> vehicles]
   \<and> length (vehicleLoop road vehicles) = length (filter (\<lambda>v. v \<noteq> None) vehicles)
   \<and> vehicleLoop road (before @ None # after) = vehicleLoop road (before @ after)
   \<and> renderRoadSegment vc (road\<lparr>getVehicles := before @ None # after\<rparr>)
       = renderRoadSegment vc (road\<lparr>getVehicles := before @ after\<rparr>)"
proof -
  let ?r1 = "road\<lparr>getVehicles := before @ None # after\<rparr>"
  let ?r2 = "road\<lparr>getVehicles := before @ after\<rparr>"
  have a: "vehicleLoop road vehicles = map (\<lambda>v. renderVehicle v road) [v. Some v \<leftarrow> vehicles]"
    by (rule vehicleLoop_filter)
  have b: "length (vehicleLoop road vehicles) = length (filter (\<lambda>v. v \<noteq> None) vehicles)"
    by (induction vehicles) (auto split: option.splits)
  have c: "vehicleLoop r (before @ None # after) = vehicleLoop r (before @ after)" for r
    by (simp add: vehicleLoop_append)
  have v: "vehicleLoop ?r1 vs = vehicleLoop ?r2 vs" for vs
    by (rule vehicleLoop_cong) simp_all
  have l: "laneLoop vc s e ?r1 i n = laneLoop vc s e ?r2 i n" for s e i n
    by (rule laneLoop_cong) simp_all
  have rb: "roadBody s e ?r1 = roadBody s e ?r2" for s e
    by (rule strokes_cong(1)) simp_all
  have d: "renderRoadSegment vc ?r1 = renderRoadSegment vc ?r2"
    using c [of ?r2] v l rb
    by (simp add: renderRoadSegment_def split: option.splits sum.splits)
  show ?thesis using a b c [of road] d by simp
qed

text \<open>A vehicle list with null entries around the example vehicle.\<close>

theorem null_vehicles_skipped_witness:
  "vehicleLoop exampleRoad [None, Some exampleVehicle, None]
     = [renderVehicle exampleVehicle exampleRoad]
   \<and> renderRoadSegment exampleCamera (exampleRoad\<lparr>getVehicles := [] @ None # [Some exampleVehicle]\<rparr>)
     = renderRoadSegment exampleCamera (exampleRoad\<lparr>getVehicles := [] @ [Some exampleVehicle]\<rparr>)"
  using null_vehicles_skipped [of exampleRoad "[None, Some exampleVehicle, None]" "[]"
      "[Some exampleVehicle]" exampleCamera]
  by simp

text \<open>
  Claim C7. For a vehicle in the vehicle list of a road that is rendered (rendering
  returns a non-empty command list), the command of the vehicle is among the commands
  emitted, and its translation is (p.x, 0.02, p.z), where p is the road's
  \<open>getLanePositionAlongRoad\<close> at the vehicle's lane and distance.
\<close>

theorem vehicle_translation:
  assumes "renderRoadSegment vc road = Inr cmds" "cmds \<noteq> []"
    "Some vehicle \<in> set (getVehicles road)"
  shows "renderVehicle vehicle road \<in> set cmds \<and>
    translation (renderVehicle vehicle road) =
     Some (vec3 (vec_x (getLanePositionAlongRoad road (getCurrentLane vehicle) (getDistanceAlongRoad vehicle))) 0.02
                (vec_z (getLanePositionAlongRoad road (getCurrentLane vehicle) (getDistanceAlongRoad vehicle))))"
proof -
  obtain s e markings where
    "cmds = roadBody s e road # markings @ vehicleLoop road (getVehicles road)"
    using renderRoadSegment_nonempty [OF assms(1,2)] by blast
  then show ?thesis using vehicleLoop_member [OF assms(3)] renderVehicle_translation by simp
qed

text \<open>
  The example vehicle (lane 0, distance 50) on the example road, whose lane position
  query returns (12, 0, 34): the translation is (12, 0.02, 34).
\<close>

theorem vehicle_translation_witness:
  "Some exampleVehicle \<in> set (getVehicles exampleRoad)
   \<and> getLanePositionAlongRoad exampleRoad (getCurrentLane exampleVehicle)
        (getDistanceAlongRoad exampleVehicle) = Vector3 12 0 34
   \<and> (\<exists>cmds. renderRoadSegment exampleCamera exampleRoad = Inr cmds
        \<and> renderVehicle exampleVehicle exampleRoad \<in> set cmds)
   \<and> translation (renderVehicle exampleVehicle exampleRoad) = Some (vec3 12 0.02 34)"
proof -
  have v: "Some exampleVehicle \<in> set (getVehicles exampleRoad)" by (simp add: example_road)
  show ?thesis
    using v vehicle_translation [OF example_render _ v]
    by (simp add: example_road example_render)
qed

section \<open>Junctions: the claim\<close>

text \<open>
  Claim C8. A traffic-light junction with exactly one connected road whose light is RED
  emits exactly two commands: the junction body, at (position.x, 0.01, position.z), and
  one marker of colour (1, 0, 0) at (entry.x, 0.5, entry.z), where entry is the
  junction's entry point for that road.
\<close>

theorem red_light_junction:
  assumes "asTrafficLightJunction junction = Some tj" "getConnectedRoads tj = [road]"
    "getLightState tj road = RED"
  shows "renderJunction junction =
     [\<lparr>model = [Translate (vec3 (vec_x (getPosition junction)) 0.01 (vec_z (getPosition junction))),
                 Scale (vec3 (getRadius junction * 2) 0.5 (getRadius junction * 2))],
        objectColor = vec3 0.5 0.5 0.6\<rparr>,
      \<lparr>model = [Translate (vec3 (vec_x (getEntryPoint tj road)) 0.5 (vec_z (getEntryPoint tj road))),
                 Scale (vec3 2 2 2)],
        objectColor = vec3 1 0 0\<rparr>]"
  using assms
  by (simp add: renderJunction_def renderTrafficLights_def drawRectangle_def Let_def)

text \<open>The example junction: radius 6 at the origin, entry point (3, 0, 4).\<close>

theorem red_light_junction_witness:
  "renderJunction exampleLightJunction =
     [\<lparr>model = [Translate (vec3 0 0.01 0), Scale (vec3 12 0.5 12)],
        objectColor = vec3 0.5 0.5 0.6\<rparr>,
      \<lparr>model = [Translate (vec3 3 0.5 4), Scale (vec3 2 2 2)], objectColor = vec3 1 0 0\<rparr>]"
  using red_light_junction [of exampleLightJunction exampleLights 7]
  by (simp add: exampleLightJunction_def exampleLights_def)

end
